theory Spec2Isabelle
  imports Main "HOL-Library.AList" "HOL-Library.Sublist" "HOL-Library.Multiset"
begin

section \<open>Python values shared by the modules\<close>

text \<open>
  A Python dictionary with string keys is an association list in insertion order:
  \<open>d.get(k)\<close> is \<open>map_of d k\<close> and \<open>d[k] = v\<close> is \<open>AList.update k v d\<close>
  (replace in place, or append at the end).  The values that the account records and
  cookie bundles hold are strings or \<open>None\<close>.
\<close>

datatype pyval = PyStr string | PyNone

type_synonym pydict = "(string \<times> pyval) list"

datatype pyerror = ValueError | KeyError | OverflowError | OtherException

text \<open>The answer of a call into a library or a service: a value, or an exception.\<close>

datatype 'a outcome = Returns 'a | Raises

text \<open>\<open>d.get(k, default)\<close>.\<close>

definition dict_get_default :: "pydict \<Rightarrow> string \<Rightarrow> pyval \<Rightarrow> pyval" where
  "dict_get_default d k dflt = (case map_of d k of None \<Rightarrow> dflt | Some v \<Rightarrow> v)"

text \<open>\<open>d.get(k)\<close>, whose default is \<open>None\<close>.\<close>

definition dict_get :: "pydict \<Rightarrow> string \<Rightarrow> pyval" where
  "dict_get d k = dict_get_default d k PyNone"

text \<open>Truthiness of a value: \<open>None\<close> and the empty string are false.\<close>

fun truthy :: "pyval \<Rightarrow> bool" where
  "truthy PyNone = False"
| "truthy (PyStr s) = (s \<noteq> [])"

text \<open>The substring test \<open>kw in s\<close>.\<close>

fun py_in :: "'a list \<Rightarrow> 'a list \<Rightarrow> bool" where
  "py_in kw [] = (kw = [])"
| "py_in kw (c # cs) = (prefix kw (c # cs) \<or> py_in kw cs)"

text \<open>\<open>any(kw in s for kw in kws)\<close>.\<close>

definition any_in :: "'a list list \<Rightarrow> 'a list \<Rightarrow> bool" where
  "any_in kws s = list_ex (\<lambda>kw. py_in kw s) kws"

section \<open>Dates (the part of \<open>datetime\<close> that utils.py uses)\<close>

record datetime =
  dt_year :: int
  dt_month :: int
  dt_day :: int
  dt_hour :: int
  dt_minute :: int
  dt_second :: int

definition is_leap :: "int \<Rightarrow> bool" where
  "is_leap y = (y mod 4 = 0 \<and> (y mod 100 \<noteq> 0 \<or> y mod 400 = 0))"

definition days_in_month :: "int \<Rightarrow> int \<Rightarrow> int" where
  "days_in_month y m =
     (if m = 2 then (if is_leap y then 29 else 28)
      else if m = 4 \<or> m = 6 \<or> m = 9 \<or> m = 11 then 30 else 31)"

text \<open>
  \<open>dt.replace(day=d)\<close>: the constructor checks the new day against the month of
  \<open>dt\<close> and raises \<open>ValueError\<close> (day is out of range for month) otherwise.
\<close>

definition replace_day :: "datetime \<Rightarrow> int \<Rightarrow> pyerror + datetime" where
  "replace_day dt d =
     (if 1 \<le> d \<and> d \<le> days_in_month (dt_year dt) (dt_month dt)
      then Inr (dt\<lparr>dt_day := d\<rparr>) else Inl ValueError)"

definition digit_char :: "int \<Rightarrow> char" where
  "digit_char d =
     (if d = 0 then CHR ''0'' else if d = 1 then CHR ''1'' else if d = 2 then CHR ''2''
      else if d = 3 then CHR ''3'' else if d = 4 then CHR ''4'' else if d = 5 then CHR ''5''
      else if d = 6 then CHR ''6'' else if d = 7 then CHR ''7'' else if d = 8 then CHR ''8''
      else CHR ''9'')"

definition pad2 :: "int \<Rightarrow> string" where
  "pad2 n = [digit_char (n div 10 mod 10), digit_char (n mod 10)]"

definition pad4 :: "int \<Rightarrow> string" where
  "pad4 n = pad2 (n div 100) @ pad2 (n mod 100)"

text \<open>\<open>dt.strftime("%Y-%m-%d %H:%M:%S")\<close>.\<close>

definition strftime :: "datetime \<Rightarrow> string" where
  "strftime dt =
     pad4 (dt_year dt) @ ''-'' @ pad2 (dt_month dt) @ ''-'' @ pad2 (dt_day dt) @ '' '' @
     pad2 (dt_hour dt) @ '':'' @ pad2 (dt_minute dt) @ '':'' @ pad2 (dt_second dt)"

section \<open>utils.py: the artifact store\<close>

text \<open>\<open>str(n)\<close> for a natural number, used by the f-string that numbers a new record.\<close>

fun digits_of :: "nat \<Rightarrow> nat \<Rightarrow> string" where
  "digits_of 0 n = []"
| "digits_of (Suc fuel) n =
     (if n < 10 then [digit_char (int n)]
      else digits_of fuel (n div 10) @ [digit_char (int (n mod 10))])"

definition str_of_nat :: "nat \<Rightarrow> string" where
  "str_of_nat n = digits_of (Suc n) n"

text \<open>
  The \<open>enumerate\<close> loop of \<open>update_accounts_json\<close>: the index of the first record whose
  \<open>email\<close> equals the given one.
\<close>

fun existing_index :: "pydict list \<Rightarrow> pyval \<Rightarrow> nat option" where
  "existing_index [] email = None"
| "existing_index (account # rest) email =
     (if dict_get account ''email'' = email then Some 0
      else map_option Suc (existing_index rest email))"

text \<open>
  \<open>update_accounts_json\<close>.  \<open>accounts\<close> is what \<open>read_json_file\<close> returned; the result
  is the list handed to \<open>write_json_file\<close>, or the exception that leaves the function
  before the write.  The body calls \<open>datetime.now()\<close> three times: \<open>now0\<close> is the reading
  of line 135, \<open>now1\<close> the receiver of \<open>replace\<close> and \<open>now2\<close> the reading whose day is
  incremented (line 137).
\<close>

definition update_accounts_json ::
  "pydict list \<Rightarrow> pyval \<Rightarrow> pydict \<Rightarrow> datetime \<Rightarrow> datetime \<Rightarrow> datetime \<Rightarrow> pyerror + pydict list" where
  "update_accounts_json accounts email cookie_data now0 now1 now2 =
     (let existing_idx = existing_index accounts email;
          now = strftime now0
      in case replace_day now1 (dt_day now2 + 7) of
           Inl err \<Rightarrow> Inl err
         | Inr expires_dt \<Rightarrow>
             (let expires = strftime expires_dt;
                  record =
                    [(''id'', (case existing_idx of
                                 None \<Rightarrow> PyStr (''account_'' @ str_of_nat (length accounts + 1))
                               | Some i \<Rightarrow> dict_get (accounts ! i) ''id'')),
                     (''email'', email),
                     (''secure_c_ses'', dict_get_default cookie_data ''secure_c_ses'' (PyStr '''')),
                     (''csesidx'', dict_get_default cookie_data ''csesidx'' (PyStr '''')),
                     (''config_id'', dict_get_default cookie_data ''config_id'' (PyStr '''')),
                     (''host_c_oses'', dict_get_default cookie_data ''host_c_oses'' (PyStr '''')),
                     (''expires_at'', PyStr expires),
                     (''created_at'', (case existing_idx of
                                         None \<Rightarrow> PyStr now
                                       | Some i \<Rightarrow> dict_get_default (accounts ! i) ''created_at'' (PyStr now))),
                     (''updated_at'', PyStr now)]
              in Inr (case existing_idx of
                        Some i \<Rightarrow> accounts[i := record]
                      | None \<Rightarrow> accounts @ [record])))"

text \<open>The position at which \<open>update_accounts_json\<close> stores the record of \<open>email\<close>.\<close>

definition record_position :: "pydict list \<Rightarrow> pyval \<Rightarrow> nat" where
  "record_position accounts email =
     (case existing_index accounts email of Some i \<Rightarrow> i | None \<Rightarrow> length accounts)"


section \<open>browser_controller.py: submitting the verification code\<close>

text \<open>
  What \<open>enter_verification_code\<close> observes of the page: whether the k-th search for the
  code input finds it, whether filling the code and activating the submit control go
  through without an exception, and the URL that the k-th read of \<open>page.url\<close> after the
  submission returns.
\<close>

record verify_env =
  ve_code_input_found :: "nat \<Rightarrow> bool"
  ve_interaction_ok :: bool
  ve_url :: "nat \<Rightarrow> string"

definition logged_in_keywords :: "string list" where
  "logged_in_keywords = [''home'', ''admin'', ''setup'', ''create'', ''dashboard'']"

definition fail_keywords :: "string list" where
  "fail_keywords = [''verify'', ''oob'', ''error'']"

text \<open>
  The search loop: up to \<open>n\<close> further tries, the \<open>k\<close>-th being the next, half a second
  apart; true as soon as one finds the input.
\<close>

fun find_code_input :: "(nat \<Rightarrow> bool) \<Rightarrow> nat \<Rightarrow> nat \<Rightarrow> bool" where
  "find_code_input found k 0 = False"
| "find_code_input found k (Suc n) = (if found k then True else find_code_input found (Suc k) n)"

text \<open>
  The navigation loop (lines 533 to 548).  \<open>navigation_poll url_at j n\<close> runs the
  remaining \<open>n\<close> iterations when \<open>j\<close> sleeps of three seconds have been spent and \<open>j\<close>
  reads of the URL made; each iteration sleeps, reads the URL and returns true on a
  logged-in keyword.  After the last iteration the URL is read once more and checked
  against the failure keywords.  The result is the returned boolean and the number of
  three-second sleeps spent.
\<close>

fun navigation_poll :: "(nat \<Rightarrow> string) \<Rightarrow> nat \<Rightarrow> nat \<Rightarrow> bool \<times> nat" where
  "navigation_poll url_at j 0 =
     (if any_in fail_keywords (url_at j) then (False, j) else (True, j))"
| "navigation_poll url_at j (Suc n) =
     (if any_in logged_in_keywords (url_at j) then (True, Suc j)
      else navigation_poll url_at (Suc j) n)"

definition enter_verification_code :: "verify_env \<Rightarrow> bool \<times> nat" where
  "enter_verification_code env =
     (if \<not> find_code_input (ve_code_input_found env) 0 10 then (False, 0)
      else if \<not> ve_interaction_ok env then (False, 0)
      else navigation_poll (ve_url env) 0 10)"

text \<open>
  The behaviour that the specification's sentence describes, for comparison: within the
  poll budget a logged-in marker returns true and a verification or error marker returns
  false at once; with neither within the budget the result is true.
\<close>

fun claimed_navigation_poll :: "(nat \<Rightarrow> string) \<Rightarrow> nat \<Rightarrow> nat \<Rightarrow> bool \<times> nat" where
  "claimed_navigation_poll url_at j 0 = (True, j)"
| "claimed_navigation_poll url_at j (Suc n) =
     (if any_in logged_in_keywords (url_at j) then (True, Suc j)
      else if any_in fail_keywords (url_at j) then (False, Suc j)
      else claimed_navigation_poll url_at (Suc j) n)"

text \<open>
  A page that is still on the verification URL at the first poll and has reached the
  home page at the second.
\<close>

definition verify_then_home :: "nat \<Rightarrow> string" where
  "verify_then_home k =
     (if k = 0 then ''https://auth.business.gemini.google/verify-oob-code''
      else ''https://business.gemini.google/home/cid/abc'')"

definition verify_then_home_env :: verify_env where
  "verify_then_home_env =
     \<lparr>ve_code_input_found = (\<lambda>k. True), ve_interaction_ok = True, ve_url = verify_then_home\<rparr>"


section \<open>browser_controller.py: extracting the cookies\<close>

subsection \<open>The calendar functions of \<open>datetime\<close> that \<open>extract_cookies\<close> uses\<close>





subsection \<open>The function\<close>












subsection \<open>Contexts used as examples\<close>








section \<open>clash_manager.py: choosing a healthy node\<close>

text \<open>
  Node and group names are Python strings with characters outside ASCII; they are
  lists of code points.  \<open>ustr\<close> writes an ASCII literal as such a list.
\<close>

type_synonym ustring = "nat list"

definition ustr :: "string \<Rightarrow> ustring" where
  "ustr s = map of_char s"










datatype proxy_event =
    TestLatency ustring
  | SelectProxy ustring ustring
  | TestGoogleAccess ustring

text \<open>Prefixing the events of a step to the events and result of what follows it.\<close>

fun emit :: "'e list \<Rightarrow> 'e list \<times> 'r \<Rightarrow> 'e list \<times> 'r" where
  "emit evs (evs', r) = (evs @ evs', r)"

text \<open>
  The selection of the group (lines 264 to 273): \<open>not group_name\<close> holds for \<open>None\<close>
  and for the empty string; the auto-detection takes the first \<open>Selector\<close> with a
  non-empty member list and leaves \<open>group_name\<close> as it is when there is none.
\<close>

definition falsy_name :: "ustring option \<Rightarrow> bool" where
  "falsy_name n = (n = None \<or> n = Some [])"







text \<open>The members whose latency was probed, in the order of the probes.\<close>

fun latency_tested :: "proxy_event list \<Rightarrow> ustring list" where
  "latency_tested [] = []"
| "latency_tested (TestLatency n # evs) = n # latency_tested evs"
| "latency_tested (ev # evs) = latency_tested evs"





section \<open>main.py and api_server.py: the acquisition pipelines\<close>

text \<open>
  The pipelines call the proxy manager, the mailbox client, the browser and the
  artifact store.  The model records each call as an event and takes the answer of each
  call from an environment, so that a run is a list of events together with the value
  returned or the exception that leaves the function.
\<close>

datatype event =
    FindHealthyNode
  | SwitchNode ustring
  | NewMailClient
  | MailRegister
  | MailSetCredentials pyval pyval
  | MailLoginExisting pyval pyval
  | MailClearInbox
  | MailWaitForCode
  | NewBrowser
  | BrowserStart
  | BrowserLogin pyval pyval
  | BrowserEnterCode string
  | BrowserWaitLoginComplete
  | BrowserExtractCookies
  | BrowserStop
  | UpdateAccountsJson pyval pydict
  | AppendToCsv pyval pyval
  | Sleep nat

text \<open>
  The answers of one attempt.  \<open>MailClient.register\<close>, \<open>login_existing\<close>,
  \<open>clear_inbox\<close> and \<open>wait_for_code\<close> catch their own exceptions and return a value;
  the browser calls and \<open>update_accounts_json\<close> may raise.  \<open>ae_stop\<close> answers the
  \<open>browser.stop()\<close> of the attempt's own flow (or of \<open>finally\<close>), \<open>ae_handler_stop\<close>
  the one inside an \<open>except\<close> block.
\<close>

record attempt_env =
  ae_register_ok :: bool
  ae_email :: string
  ae_password :: string
  ae_login_existing_ok :: bool
  ae_start :: "unit outcome"
  ae_login :: "bool outcome"
  ae_code :: "string option"
  ae_enter :: "bool outcome"
  ae_complete :: "bool outcome"
  ae_extract :: "pydict outcome"
  ae_update :: "unit outcome"
  ae_stop :: "unit outcome"
  ae_handler_stop :: "unit outcome"

text \<open>
  The answers while one account is handled: the node that \<open>find_healthy_node\<close>
  returns, whether \<open>switch_node\<close> succeeds, the answers of the attempt with a given
  number, and the answer of the \<open>update_accounts_json\<close> that the caller makes.
\<close>

record account_env =
  ac_node :: "ustring option"
  ac_switch_ok :: bool
  ac_attempt :: "nat \<Rightarrow> attempt_env"
  ac_caller_update :: "unit outcome"

text \<open>How the body of a \<open>try\<close> block ends.\<close>

datatype 'a try_result = Returned 'a | Continued | Raised

subsection \<open>Registration\<close>

text \<open>\<open>await browser.stop(); continue\<close> inside the \<open>try\<close> block.\<close>

definition stop_and_continue :: "attempt_env \<Rightarrow> event list \<times> pydict try_result" where
  "stop_and_continue e =
     emit [BrowserStop] (case ae_stop e of Raises \<Rightarrow> ([], Raised) | Returns u \<Rightarrow> ([], Continued))"

text \<open>The \<open>try\<close> block of \<open>register_new_account\<close> (lines 76 to 122).\<close>

definition register_try :: "attempt_env \<Rightarrow> event list \<times> pydict try_result" where
  "register_try e =
     emit [BrowserStart] (case ae_start e of Raises \<Rightarrow> ([], Raised) | Returns u \<Rightarrow>
     emit [BrowserLogin (PyStr (ae_email e)) (PyStr (ae_password e))]
       (case ae_login e of Raises \<Rightarrow> ([], Raised) | Returns ok \<Rightarrow>
        if \<not> ok then stop_and_continue e else
     emit [MailWaitForCode] (case ae_code e of None \<Rightarrow> stop_and_continue e | Some code \<Rightarrow>
        if code = [] then stop_and_continue e else
     emit [BrowserEnterCode code] (case ae_enter e of Raises \<Rightarrow> ([], Raised) | Returns ok \<Rightarrow>
        if \<not> ok then stop_and_continue e else
     emit [BrowserWaitLoginComplete]
       (case ae_complete e of Raises \<Rightarrow> ([], Raised) | Returns ok \<Rightarrow>
        if \<not> ok then stop_and_continue e else
     emit [BrowserExtractCookies]
       (case ae_extract e of Raises \<Rightarrow> ([], Raised) | Returns cookie_data \<Rightarrow>
        if \<not> truthy (dict_get cookie_data ''secure_c_ses'') then stop_and_continue e else
     emit [BrowserStop] (case ae_stop e of Raises \<Rightarrow> ([], Raised) | Returns u \<Rightarrow>
       ([], Returned (AList.update ''password'' (PyStr (ae_password e))
                        (AList.update ''email'' (PyStr (ae_email e)) cookie_data))))))))))"

text \<open>How one pass through the body of the retry loop ends.\<close>

datatype attempt_result = NextAttempt | ReturnBundle pydict | Propagate

text \<open>
  One pass through the loop body of \<open>register_new_account\<close> (lines 58 to 127): a new
  mail client, the registration, a new browser, the \<open>try\<close> block and its \<open>except\<close>
  block, which stops the browser again and continues.
\<close>

definition register_attempt :: "attempt_env \<Rightarrow> event list \<times> attempt_result" where
  "register_attempt e =
     emit [NewMailClient, MailRegister]
       (if \<not> ae_register_ok e then ([], NextAttempt)
        else emit [NewBrowser]
          (case register_try e of
             (evs, Returned cookie_data) \<Rightarrow> (evs, ReturnBundle cookie_data)
           | (evs, Continued) \<Rightarrow> (evs, NextAttempt)
           | (evs, Raised) \<Rightarrow>
               emit (evs @ [BrowserStop])
                 (case ae_handler_stop e of
                    Raises \<Rightarrow> ([], Propagate)
                  | Returns u \<Rightarrow> ([], NextAttempt))))"

text \<open>\<open>for attempt in range(max_retries)\<close>: \<open>n\<close> passes remain, the next has number \<open>attempt\<close>.\<close>

fun register_attempts ::
  "(nat \<Rightarrow> attempt_env) \<Rightarrow> nat \<Rightarrow> nat \<Rightarrow> event list \<times> (pyerror + pydict option)" where
  "register_attempts env attempt 0 = ([], Inr None)"
| "register_attempts env attempt (Suc n) =
     (case register_attempt (env attempt) of
        (evs, NextAttempt) \<Rightarrow> emit evs (register_attempts env (Suc attempt) n)
      | (evs, ReturnBundle cookie_data) \<Rightarrow> (evs, Inr (Some cookie_data))
      | (evs, Propagate) \<Rightarrow> (evs, Inl OtherException))"

definition max_retries :: nat where
  "max_retries = 3"

text \<open>\<open>register_new_account\<close> of main.py.\<close>

definition register_new_account :: "account_env \<Rightarrow> event list \<times> (pyerror + pydict option)" where
  "register_new_account env =
     emit [FindHealthyNode]
       (if falsy_name (ac_node env) then ([], Inr None)
        else register_attempts (ac_attempt env) 0 max_retries)"

text \<open>
  \<open>register_single_account\<close> of api_server.py: the same statements, with its own log
  messages and a browser that is never headless.
\<close>

definition register_single_account :: "account_env \<Rightarrow> event list \<times> (pyerror + pydict option)" where
  "register_single_account env =
     emit [FindHealthyNode]
       (if falsy_name (ac_node env) then ([], Inr None)
        else register_attempts (ac_attempt env) 0 max_retries)"

subsection \<open>Refresh\<close>

text \<open>
  The \<open>try\<close> block of \<open>process_existing_account\<close> (lines 191 to 235); it returns a
  boolean or raises.
\<close>

definition process_try :: "pyval \<Rightarrow> pyval \<Rightarrow> attempt_env \<Rightarrow> event list \<times> bool try_result" where
  "process_try email password e =
     emit [BrowserStart] (case ae_start e of Raises \<Rightarrow> ([], Raised) | Returns u \<Rightarrow>
     emit [MailClearInbox]
    (emit [BrowserLogin email password]
       (case ae_login e of Raises \<Rightarrow> ([], Raised) | Returns ok \<Rightarrow>
        if \<not> ok then ([], Returned False) else
     emit [MailWaitForCode] (case ae_code e of None \<Rightarrow> ([], Returned False) | Some code \<Rightarrow>
        if code = [] then ([], Returned False) else
     emit [BrowserEnterCode code] (case ae_enter e of Raises \<Rightarrow> ([], Raised) | Returns ok \<Rightarrow>
        if \<not> ok then ([], Returned False) else
     emit [BrowserWaitLoginComplete]
       (case ae_complete e of Raises \<Rightarrow> ([], Raised) | Returns ok \<Rightarrow>
        if \<not> ok then ([], Returned False) else
     emit [BrowserExtractCookies]
       (case ae_extract e of Raises \<Rightarrow> ([], Raised) | Returns cookie_data \<Rightarrow>
        if \<not> truthy (dict_get cookie_data ''secure_c_ses'') then ([], Returned False) else
     emit [UpdateAccountsJson email (AList.update ''email'' email cookie_data)]
       (case ae_update e of Raises \<Rightarrow> ([], Raised) | Returns u \<Rightarrow> ([], Returned True)))))))))"

text \<open>
  \<open>process_existing_account\<close> of main.py.  The \<open>except\<close> block turns an exception of the
  \<open>try\<close> block into \<open>False\<close>; the \<open>finally\<close> block stops the browser, and an exception
  of that call leaves the function.
\<close>

definition process_existing_account ::
  "pydict \<Rightarrow> ustring option \<Rightarrow> account_env \<Rightarrow> event list \<times> (pyerror + bool)" where
  "process_existing_account account proxy_node env =
     (let email = dict_get_default account ''email'' (PyStr []);
          password = dict_get_default account ''password'' (PyStr []);
          e = ac_attempt env 0
      in if \<not> truthy email then ([], Inr False)
         else
           (case (case proxy_node of
                    Some node \<Rightarrow>
                      if node \<noteq> [] then ([SwitchNode node], ac_switch_ok env)
                      else ([FindHealthyNode], \<not> falsy_name (ac_node env))
                  | None \<Rightarrow> ([FindHealthyNode], \<not> falsy_name (ac_node env))) of
              (evs, node_ok) \<Rightarrow>
                emit evs
                  (if \<not> node_ok then ([], Inr False)
                   else emit [NewMailClient, MailSetCredentials email password, NewBrowser]
                     (case process_try email password e of
                        (evs', r) \<Rightarrow>
                          emit (evs' @ [BrowserStop])
                            (case ae_stop e of
                               Raises \<Rightarrow> ([], Inl OtherException)
                             | Returns u \<Rightarrow>
                                 ([], Inr (case r of Returned b \<Rightarrow> b | Continued \<Rightarrow> False
                                           | Raised \<Rightarrow> False)))))))"

text \<open>The \<open>try\<close> block of \<open>refresh_single_account\<close> (lines 376 to 406).\<close>

definition refresh_try :: "pyval \<Rightarrow> pyval \<Rightarrow> attempt_env \<Rightarrow> event list \<times> pydict option try_result" where
  "refresh_try email password e =
     emit [BrowserStart] (case ae_start e of Raises \<Rightarrow> ([], Raised) | Returns u \<Rightarrow>
     emit [BrowserLogin email password]
       (case ae_login e of Raises \<Rightarrow> ([], Raised) | Returns ok \<Rightarrow>
        if \<not> ok then ([], Returned None) else
     emit [MailWaitForCode] (case ae_code e of None \<Rightarrow> ([], Returned None) | Some code \<Rightarrow>
        if code = [] then ([], Returned None) else
     emit [BrowserEnterCode code] (case ae_enter e of Raises \<Rightarrow> ([], Raised) | Returns ok \<Rightarrow>
        if \<not> ok then ([], Returned None) else
     emit [BrowserWaitLoginComplete]
       (case ae_complete e of Raises \<Rightarrow> ([], Raised) | Returns ok \<Rightarrow>
        if \<not> ok then ([], Returned None) else
     emit [BrowserExtractCookies]
       (case ae_extract e of Raises \<Rightarrow> ([], Raised) | Returns cookie_data \<Rightarrow>
        if \<not> truthy (dict_get cookie_data ''secure_c_ses'') then ([], Returned None)
        else ([], Returned (Some (AList.update ''password'' password
                                    (AList.update ''email'' email cookie_data))))))))))"

text \<open>\<open>refresh_single_account\<close> of api_server.py.\<close>

definition refresh_single_account ::
  "pyval \<Rightarrow> pyval \<Rightarrow> account_env \<Rightarrow> event list \<times> (pyerror + pydict option)" where
  "refresh_single_account email password env =
     (let e = ac_attempt env 0
      in emit [FindHealthyNode]
           (if falsy_name (ac_node env) then ([], Inr None)
            else emit [NewMailClient, MailLoginExisting email password]
              (if \<not> ae_login_existing_ok e then ([], Inr None)
               else emit [NewBrowser]
                 (case refresh_try email password e of
                    (evs, r) \<Rightarrow>
                      emit (evs @ [BrowserStop])
                        (case ae_stop e of
                           Raises \<Rightarrow> ([], Inl OtherException)
                         | Returns u \<Rightarrow>
                             ([], Inr (case r of Returned b \<Rightarrow> b | Continued \<Rightarrow> None
                                       | Raised \<Rightarrow> None)))))))"

subsection \<open>The callers that write to the artifact store\<close>

text \<open>
  What both registration callers do with the result of one registration: \<open>if result\<close>
  (a non-empty dictionary), \<open>update_accounts_json(path, result["email"], result)\<close> and
  \<open>append_to_csv\<close>, which catches its own exceptions.  The boolean tells whether the
  account counts as a success.
\<close>

definition save_registration ::
  "account_env \<Rightarrow> pydict option \<Rightarrow> event list \<times> (pyerror + bool)" where
  "save_registration env result =
     (case result of
        None \<Rightarrow> ([], Inr False)
      | Some cookie_data \<Rightarrow>
          if cookie_data = [] then ([], Inr False)
          else (case map_of cookie_data ''email'' of
                  None \<Rightarrow> ([], Inl KeyError)
                | Some email \<Rightarrow>
                    emit [UpdateAccountsJson email cookie_data]
                      (case ac_caller_update env of
                         Raises \<Rightarrow> ([], Inl OtherException)
                       | Returns u \<Rightarrow>
                           ([AppendToCsv email
                               (dict_get_default cookie_data ''password'' (PyStr []))],
                            Inr True))))"

text \<open>\<open>if i < count - 1: await asyncio.sleep(3)\<close>.\<close>

definition cooldown :: "nat \<Rightarrow> nat \<Rightarrow> event list" where
  "cooldown i num = (if int i < int num - 1 then [Sleep 3] else [])"

text \<open>
  The registration loop of \<open>main_async\<close> (lines 278 to 296): \<open>n\<close> accounts remain, the
  next has index \<open>i\<close>; the result is the pair of success and failure counts, or the
  exception that leaves the loop.
\<close>

fun main_register_loop ::
  "(nat \<Rightarrow> account_env) \<Rightarrow> nat \<Rightarrow> nat \<Rightarrow> nat \<Rightarrow> nat \<times> nat \<Rightarrow>
   event list \<times> (pyerror + nat \<times> nat)" where
  "main_register_loop envs num i 0 counts = ([], Inr counts)"
| "main_register_loop envs num i (Suc n) counts =
     (case register_new_account (envs i) of
        (evs, Inl err) \<Rightarrow> (evs, Inl err)
      | (evs, Inr result) \<Rightarrow>
          emit evs
            (case save_registration (envs i) result of
               (evs', Inl err) \<Rightarrow> (evs', Inl err)
             | (evs', Inr saved) \<Rightarrow>
                 emit (evs' @ cooldown i num)
                   (main_register_loop envs num (Suc i) n
                      (if saved then (Suc (fst counts), snd counts)
                       else (fst counts, Suc (snd counts))))))"

definition main_register_mode ::
  "(nat \<Rightarrow> account_env) \<Rightarrow> nat \<Rightarrow> event list \<times> (pyerror + nat \<times> nat)" where
  "main_register_mode envs num = main_register_loop envs num 0 num (0, 0)"

text \<open>
  The refresh loop of \<open>main_async\<close> (lines 321 to 341) over the accounts read from the
  CSV file; \<open>existing\<close> are the emails already in the artifact store, which are skipped.
  An exception of \<open>process_existing_account\<close> is caught and counted as a failure.
\<close>

fun main_refresh_loop ::
  "(nat \<Rightarrow> account_env) \<Rightarrow> ustring option \<Rightarrow> pyval list \<Rightarrow> nat \<Rightarrow> pydict list \<Rightarrow>
   nat \<times> nat \<Rightarrow> event list \<times> nat \<times> nat" where
  "main_refresh_loop envs proxy_node existing i [] counts = ([], counts)"
| "main_refresh_loop envs proxy_node existing i (account # rest) counts =
     (if dict_get_default account ''email'' (PyStr []) \<in> set existing
      then main_refresh_loop envs proxy_node existing (Suc i) rest counts
      else (case process_existing_account account proxy_node (envs i) of
              (evs, r) \<Rightarrow>
                emit evs
                  (main_refresh_loop envs proxy_node existing (Suc i) rest
                     (if r = Inr True then (Suc (fst counts), snd counts)
                      else (fst counts, Suc (snd counts))))))"

definition main_refresh_mode ::
  "(nat \<Rightarrow> account_env) \<Rightarrow> ustring option \<Rightarrow> pyval list \<Rightarrow> pydict list \<Rightarrow>
   event list \<times> nat \<times> nat" where
  "main_refresh_mode envs proxy_node existing accounts =
     main_refresh_loop envs proxy_node existing 0 accounts (0, 0)"

datatype task_status = PENDING | RUNNING | SUCCESS | FAILED

text \<open>The loop of \<open>run_register_task\<close> (lines 196 to 221).\<close>

fun run_register_loop ::
  "(nat \<Rightarrow> account_env) \<Rightarrow> nat \<Rightarrow> nat \<Rightarrow> nat \<Rightarrow> pydict list \<times> nat \<times> nat \<Rightarrow>
   event list \<times> (pyerror + pydict list \<times> nat \<times> nat)" where
  "run_register_loop envs num i 0 acc = ([], Inr acc)"
| "run_register_loop envs num i (Suc n) acc =
     (case register_single_account (envs i) of
        (evs, Inl err) \<Rightarrow> (evs, Inl err)
      | (evs, Inr result) \<Rightarrow>
          emit evs
            (case save_registration (envs i) result of
               (evs', Inl err) \<Rightarrow> (evs', Inl err)
             | (evs', Inr saved) \<Rightarrow>
                 emit (evs' @ cooldown i num)
                   (run_register_loop envs num (Suc i) n
                      (if saved
                       then (fst acc @ [the result], Suc (fst (snd acc)), snd (snd acc))
                       else (fst acc, fst (snd acc), Suc (snd (snd acc)))))))"

text \<open>
  \<open>run_register_task\<close>: the task ends as \<open>SUCCESS\<close> with the registered accounts and
  the counts, or as \<open>FAILED\<close> when an exception left the loop.
\<close>

definition run_register_task ::
  "(nat \<Rightarrow> account_env) \<Rightarrow> nat \<Rightarrow> event list \<times> task_status \<times> pydict list" where
  "run_register_task envs num =
     (case run_register_loop envs num 0 num ([], 0, 0) of
        (evs, Inl err) \<Rightarrow> (evs, FAILED, [])
      | (evs, Inr acc) \<Rightarrow> (evs, SUCCESS, fst acc))"

text \<open>\<open>run_refresh_task\<close> (lines 251 to 267).\<close>

definition run_refresh_task ::
  "pyval \<Rightarrow> pyval \<Rightarrow> account_env \<Rightarrow> event list \<times> task_status \<times> pydict option" where
  "run_refresh_task email password env =
     (case refresh_single_account email password env of
        (evs, Inl err) \<Rightarrow> (evs, FAILED, None)
      | (evs, Inr None) \<Rightarrow> (evs, FAILED, None)
      | (evs, Inr (Some cookie_data)) \<Rightarrow>
          if cookie_data = [] then (evs, FAILED, None)
          else emit (evs @ [UpdateAccountsJson email cookie_data])
                 (case ac_caller_update env of
                    Raises \<Rightarrow> ([], FAILED, Some cookie_data)
                  | Returns u \<Rightarrow> ([], SUCCESS, Some cookie_data)))"

text \<open>The calls of \<open>update_accounts_json\<close> in a run: the email and the bundle passed.\<close>

fun updates_of :: "event list \<Rightarrow> (pyval \<times> pydict) list" where
  "updates_of [] = []"
| "updates_of (UpdateAccountsJson email cookie_data # evs) = (email, cookie_data) # updates_of evs"
| "updates_of (ev # evs) = updates_of evs"

text \<open>
  An attempt in which every step up to the extraction succeeds, the extraction returns
  \<open>cookie_data\<close>, and the browser stops without an exception.
\<close>

definition reaches_extraction :: "attempt_env \<Rightarrow> string \<Rightarrow> pydict \<Rightarrow> bool" where
  "reaches_extraction e code cookie_data =
     (ae_start e = Returns () \<and> ae_login e = Returns True \<and> ae_code e = Some code \<and>
      code \<noteq> [] \<and> ae_enter e = Returns True \<and> ae_complete e = Returns True \<and>
      ae_extract e = Returns cookie_data \<and> ae_stop e = Returns ())"

text \<open>
  Every bundle that a run passes to \<open>update_accounts_json\<close> has a non-empty
  \<open>secure_c_ses\<close>.
\<close>

definition bundles_ok :: "event list \<Rightarrow> bool" where
  "bundles_ok evs = (\<forall>u \<in> set (updates_of evs). truthy (dict_get (snd u) ''secure_c_ses''))"

text \<open>The bundle that a successful registration or API refresh returns.\<close>

definition with_identity :: "pyval \<Rightarrow> pyval \<Rightarrow> pydict \<Rightarrow> pydict" where
  "with_identity email password cookie_data =
     AList.update ''password'' password (AList.update ''email'' email cookie_data)"

subsection \<open>Environments used as examples\<close>

text \<open>A bundle in which only the session cookie is non-empty.\<close>

definition minimal_bundle :: pydict where
  "minimal_bundle =
     [(''secure_c_ses'', PyStr ''abc''), (''csesidx'', PyStr []), (''config_id'', PyStr []),
      (''host_c_oses'', PyStr []), (''expires_at'', PyStr [])]"

text \<open>An attempt in which every step succeeds and the extraction returns that bundle.\<close>

definition happy_attempt :: attempt_env where
  "happy_attempt =
     \<lparr>ae_register_ok = True, ae_email = ''t1234abcdefghij@duck.test'',
      ae_password = ''Pwdabcdefghij1234'', ae_login_existing_ok = True,
      ae_start = Returns (), ae_login = Returns True, ae_code = Some ''554211'',
      ae_enter = Returns True, ae_complete = Returns True,
      ae_extract = Returns minimal_bundle, ae_update = Returns (),
      ae_stop = Returns (), ae_handler_stop = Returns ()\<rparr>"

definition happy_env :: account_env where
  "happy_env =
     \<lparr>ac_node = Some (ustr ''N1''), ac_switch_ok = True,
      ac_attempt = (\<lambda>i. happy_attempt), ac_caller_update = Returns ()\<rparr>"

text \<open>
  An environment with a healthy node in which the browser login step returns false on
  every attempt; attempt \<open>i\<close> registers the mailbox \<open>m0\<close>, \<open>m1\<close> or \<open>m2\<close>.
\<close>

definition login_false_attempt :: "nat \<Rightarrow> attempt_env" where
  "login_false_attempt i =
     happy_attempt\<lparr>ae_login := Returns False,
       ae_email := (if i = 0 then ''m0@duck.test'' else if i = 1 then ''m1@duck.test''
                    else ''m2@duck.test'')\<rparr>"

definition login_false_env :: account_env where
  "login_false_env =
     \<lparr>ac_node = Some (ustr ''N1''), ac_switch_ok = True,
      ac_attempt = login_false_attempt, ac_caller_update = Returns ()\<rparr>"

text \<open>The account of a refresh: an email and its mailbox secret.\<close>

definition example_account :: pydict where
  "example_account =
     [(''id'', PyStr ''1''), (''email'', PyStr ''old@duck.test''),
      (''password'', PyStr ''Pwdold''), (''date'', PyStr ''2026-01-05'')]"



lemma existing_index_less:
  "existing_index accounts email = Some i \<Longrightarrow> i < length accounts"
  by (induction accounts arbitrary: i) (auto split: if_splits)

lemma existing_index_email:
  "existing_index accounts email = Some i \<Longrightarrow> dict_get (accounts ! i) ''email'' = email"
  by (induction accounts arbitrary: i) (auto split: if_splits)

lemma replace_day_Inr:
  "replace_day dt d = Inr dt' \<Longrightarrow> dt' = dt\<lparr>dt_day := d\<rparr>"
  by (auto simp: replace_day_def split: if_splits)

section \<open>Properties of the artifact store\<close>

text \<open>
  C9.  The default expiry of \<open>update_accounts_json\<close> is the current date with its day
  field replaced by day + 7.  Whenever the day read by the clock plus 7 exceeds the last
  day of the month that \<open>replace\<close> is applied to (in particular for every current date
  whose day-of-month plus 7 runs past the end of its month), \<open>replace\<close> raises
  \<open>ValueError\<close>: the function leaves with that exception and nothing is written.
\<close>

theorem update_accounts_json_month_end_raises:
  assumes "days_in_month (dt_year now1) (dt_month now1) < dt_day now2 + 7"
  shows "update_accounts_json accounts email cookie_data now0 now1 now2 = Inl ValueError"
  using assms by (simp add: update_accounts_json_def replace_day_def Let_def)

theorem update_accounts_json_month_end_raises_witness:
  "days_in_month 2026 1 < 25 + 7 \<and>
   update_accounts_json [] (PyStr ''a@b.c'') [(''secure_c_ses'', PyStr ''abc'')]
     \<lparr>dt_year = 2026, dt_month = 1, dt_day = 25, dt_hour = 10, dt_minute = 30, dt_second = 0\<rparr>
     \<lparr>dt_year = 2026, dt_month = 1, dt_day = 25, dt_hour = 10, dt_minute = 30, dt_second = 0\<rparr>
     \<lparr>dt_year = 2026, dt_month = 1, dt_day = 25, dt_hour = 10, dt_minute = 30, dt_second = 0\<rparr>
   = Inl ValueError"
proof -
  have h: "days_in_month (dt_year \<lparr>dt_year = 2026, dt_month = 1, dt_day = 25, dt_hour = 10,
              dt_minute = 30, dt_second = 0\<rparr>)
            (dt_month \<lparr>dt_year = 2026, dt_month = 1, dt_day = 25, dt_hour = 10,
              dt_minute = 30, dt_second = 0\<rparr>)
           < dt_day \<lparr>dt_year = 2026, dt_month = 1, dt_day = 25, dt_hour = 10,
              dt_minute = 30, dt_second = 0\<rparr> + 7"
    by (simp add: days_in_month_def)
  have "days_in_month 2026 1 < (25::int) + 7"
    by (simp add: days_in_month_def)
  with update_accounts_json_month_end_raises [OF h] show ?thesis
    by blast
qed

text \<open>
  C10.  Whenever \<open>update_accounts_json\<close> completes, the record it stores for the email
  carries as \<open>expires_at\<close> the locally computed default (the clock reading with its day
  replaced by day + 7), and the stored list does not depend on the \<open>expires_at\<close> entry of
  the supplied cookie data: the expiry that \<open>extract_cookies\<close> computed never reaches the
  store.
\<close>

theorem update_accounts_json_ignores_cookie_expiry:
  assumes "update_accounts_json accounts email cookie_data now0 now1 now2 = Inr accounts'"
  shows "record_position accounts email < length accounts' \<and>
         dict_get (accounts' ! record_position accounts email) ''email'' = email \<and>
         dict_get (accounts' ! record_position accounts email) ''expires_at'' =
           PyStr (strftime (now1\<lparr>dt_day := dt_day now2 + 7\<rparr>)) \<and>
         (\<forall>v. update_accounts_json accounts email
                 (AList.update ''expires_at'' v cookie_data) now0 now1 now2 = Inr accounts')"
proof -
  from assms obtain dt where dt: "replace_day now1 (dt_day now2 + 7) = Inr dt"
    by (auto simp: update_accounts_json_def Let_def split: sum.splits)
  then have dt_eq: "dt = now1\<lparr>dt_day := dt_day now2 + 7\<rparr>"
    by (rule replace_day_Inr)
  have indep: "dict_get_default (AList.update ''expires_at'' v cookie_data) k d =
               dict_get_default cookie_data k d" if "k \<noteq> ''expires_at''" for v k d
    using that by (simp add: dict_get_default_def update_conv')
  have other: "update_accounts_json accounts email
                 (AList.update ''expires_at'' v cookie_data) now0 now1 now2 =
               update_accounts_json accounts email cookie_data now0 now1 now2" for v
    by (simp add: update_accounts_json_def indep Let_def split: sum.splits)
  have all: "\<forall>v. update_accounts_json accounts email
                 (AList.update ''expires_at'' v cookie_data) now0 now1 now2 = Inr accounts'"
    using other assms by simp
  have "record_position accounts email < length accounts' \<and>
         dict_get (accounts' ! record_position accounts email) ''email'' = email \<and>
         dict_get (accounts' ! record_position accounts email) ''expires_at'' =
           PyStr (strftime (now1\<lparr>dt_day := dt_day now2 + 7\<rparr>))"
  proof (cases "existing_index accounts email")
    case None
    with assms dt show ?thesis
      by (auto simp: update_accounts_json_def Let_def record_position_def
            dict_get_def dict_get_default_def dt_eq nth_append)
  next
    case (Some i)
    then have "i < length accounts" by (rule existing_index_less)
    with Some assms dt show ?thesis
      by (auto simp: update_accounts_json_def Let_def record_position_def
            dict_get_def dict_get_default_def dt_eq)
  qed
  with all show ?thesis by blast
qed

theorem update_accounts_json_ignores_cookie_expiry_witness:
  "update_accounts_json [] (PyStr ''a@b.c'')
     [(''secure_c_ses'', PyStr ''abc''), (''expires_at'', PyStr ''2026-03-01 00:00:00'')]
     \<lparr>dt_year = 2026, dt_month = 1, dt_day = 5, dt_hour = 3, dt_minute = 4, dt_second = 59\<rparr>
     \<lparr>dt_year = 2026, dt_month = 1, dt_day = 5, dt_hour = 3, dt_minute = 4, dt_second = 59\<rparr>
     \<lparr>dt_year = 2026, dt_month = 1, dt_day = 5, dt_hour = 3, dt_minute = 4, dt_second = 59\<rparr>
   = Inr [[(''id'', PyStr ''account_1''), (''email'', PyStr ''a@b.c''),
           (''secure_c_ses'', PyStr ''abc''), (''csesidx'', PyStr []),
           (''config_id'', PyStr []), (''host_c_oses'', PyStr []),
           (''expires_at'', PyStr ''2026-01-12 03:04:59''),
           (''created_at'', PyStr ''2026-01-05 03:04:59''),
           (''updated_at'', PyStr ''2026-01-05 03:04:59'')]] \<and>
   dict_get ([[(''id'', PyStr ''account_1''), (''email'', PyStr ''a@b.c''),
           (''secure_c_ses'', PyStr ''abc''), (''csesidx'', PyStr []),
           (''config_id'', PyStr []), (''host_c_oses'', PyStr []),
           (''expires_at'', PyStr ''2026-01-12 03:04:59''),
           (''created_at'', PyStr ''2026-01-05 03:04:59''),
           (''updated_at'', PyStr ''2026-01-05 03:04:59'')]] ! record_position [] (PyStr ''a@b.c''))
     ''expires_at''
   = PyStr (strftime (\<lparr>dt_year = 2026, dt_month = 1, dt_day = 5, dt_hour = 3, dt_minute = 4,
        dt_second = 59\<rparr>\<lparr>dt_day := 5 + 7\<rparr>))"
proof -
  have h: "update_accounts_json [] (PyStr ''a@b.c'')
     [(''secure_c_ses'', PyStr ''abc''), (''expires_at'', PyStr ''2026-03-01 00:00:00'')]
     \<lparr>dt_year = 2026, dt_month = 1, dt_day = 5, dt_hour = 3, dt_minute = 4, dt_second = 59\<rparr>
     \<lparr>dt_year = 2026, dt_month = 1, dt_day = 5, dt_hour = 3, dt_minute = 4, dt_second = 59\<rparr>
     \<lparr>dt_year = 2026, dt_month = 1, dt_day = 5, dt_hour = 3, dt_minute = 4, dt_second = 59\<rparr>
   = Inr [[(''id'', PyStr ''account_1''), (''email'', PyStr ''a@b.c''),
           (''secure_c_ses'', PyStr ''abc''), (''csesidx'', PyStr []),
           (''config_id'', PyStr []), (''host_c_oses'', PyStr []),
           (''expires_at'', PyStr ''2026-01-12 03:04:59''),
           (''created_at'', PyStr ''2026-01-05 03:04:59''),
           (''updated_at'', PyStr ''2026-01-05 03:04:59'')]]"
    by (simp add: update_accounts_json_def replace_day_def days_in_month_def strftime_def
          pad4_def pad2_def digit_char_def str_of_nat_def dict_get_default_def Let_def)
  from update_accounts_json_ignores_cookie_expiry [OF h] h show ?thesis
    by (simp add: record_position_def)
qed

section \<open>Properties of the verification step\<close>

lemma navigation_poll_no_marker:
  "(\<forall>i<n. \<not> any_in logged_in_keywords (url_at (j + i))) \<Longrightarrow>
   navigation_poll url_at j n = (\<not> any_in fail_keywords (url_at (j + n)), j + n)"
proof (induction n arbitrary: j)
  case 0
  then show ?case by simp
next
  case (Suc n)
  from Suc.prems have first: "\<not> any_in logged_in_keywords (url_at j)"
    by (metis add.right_neutral zero_less_Suc)
  have "\<forall>i<n. \<not> any_in logged_in_keywords (url_at (Suc j + i))"
    using Suc.prems by (metis Suc_less_eq add_Suc_shift)
  from Suc.IH [OF this] first show ?case by simp
qed

lemma navigation_poll_first_marker:
  "k < n \<Longrightarrow> any_in logged_in_keywords (url_at (j + k)) \<Longrightarrow>
   (\<forall>i<k. \<not> any_in logged_in_keywords (url_at (j + i))) \<Longrightarrow>
   navigation_poll url_at j n = (True, Suc (j + k))"
proof (induction n arbitrary: j k)
  case 0
  then show ?case by simp
next
  case (Suc n)
  show ?case
  proof (cases k)
    case 0
    with Suc.prems show ?thesis by simp
  next
    case (Suc k')
    with Suc.prems have first: "\<not> any_in logged_in_keywords (url_at j)"
      by (metis add.right_neutral zero_less_Suc)
    have a: "k' < n" using Suc Suc.prems by simp
    have b: "any_in logged_in_keywords (url_at (Suc j + k'))"
      using Suc Suc.prems by simp
    have c: "\<forall>i<k'. \<not> any_in logged_in_keywords (url_at (Suc j + i))"
      using Suc Suc.prems by (metis Suc_less_eq add_Suc_shift)
    from Suc.IH [OF a b c] first Suc show ?thesis by simp
  qed
qed

text \<open>
  C8, as the specification states it, fails: on a page that still shows the verification
  URL at the first poll and the home page at the second, the code returns true after two
  polls, where the described behaviour returns false at the first.
\<close>

theorem enter_verification_code_not_immediate_counterexample:
  "enter_verification_code verify_then_home_env = (True, 2) \<and>
   claimed_navigation_poll (ve_url verify_then_home_env) 0 10 = (False, 1)"
  by (simp add: enter_verification_code_def verify_then_home_env_def verify_then_home_def
        any_in_def logged_in_keywords_def fail_keywords_def eval_nat_numeral)

text \<open>
  C8, amended.  Once the code input was found and the code submitted,
  \<open>enter_verification_code\<close> polls the URL up to 10 times, three seconds apart, and
  returns true at the first poll that shows a logged-in marker; failure markers are not
  looked at during these polls.  Only when all 10 polls showed no logged-in marker is the
  URL read once more: the result is then false if that URL contains a failure marker and
  true otherwise.
\<close>

theorem enter_verification_code_polling:
  assumes "find_code_input (ve_code_input_found env) 0 10" and "ve_interaction_ok env"
  shows "(\<forall>k<10. any_in logged_in_keywords (ve_url env k) \<and>
                 (\<forall>i<k. \<not> any_in logged_in_keywords (ve_url env i)) \<longrightarrow>
                 enter_verification_code env = (True, Suc k)) \<and>
         ((\<forall>i<10. \<not> any_in logged_in_keywords (ve_url env i)) \<longrightarrow>
            enter_verification_code env = (\<not> any_in fail_keywords (ve_url env 10), 10))"
proof -
  have run: "enter_verification_code env = navigation_poll (ve_url env) 0 10"
    using assms by (simp add: enter_verification_code_def)
  have "enter_verification_code env = (True, Suc k)"
    if "k < 10" "any_in logged_in_keywords (ve_url env k)"
       "\<forall>i<k. \<not> any_in logged_in_keywords (ve_url env i)" for k
    using navigation_poll_first_marker [of k 10 "ve_url env" 0] that run by simp
  moreover have "enter_verification_code env = (\<not> any_in fail_keywords (ve_url env 10), 10)"
    if "\<forall>i<10. \<not> any_in logged_in_keywords (ve_url env i)"
    using navigation_poll_no_marker [of 10 "ve_url env" 0] that run by simp
  ultimately show ?thesis by blast
qed

theorem enter_verification_code_polling_witness:
  "find_code_input (ve_code_input_found verify_then_home_env) 0 10 \<and>
   ve_interaction_ok verify_then_home_env \<and>
   any_in logged_in_keywords (ve_url verify_then_home_env 1) \<and>
   \<not> any_in logged_in_keywords (ve_url verify_then_home_env 0) \<and>
   any_in fail_keywords (ve_url verify_then_home_env 0) \<and>
   enter_verification_code verify_then_home_env = (True, Suc 1)"
proof -
  have a: "find_code_input (ve_code_input_found verify_then_home_env) 0 10"
    by (simp add: verify_then_home_env_def eval_nat_numeral)
  have b: "ve_interaction_ok verify_then_home_env"
    by (simp add: verify_then_home_env_def)
  have c: "any_in logged_in_keywords (ve_url verify_then_home_env 1)"
    by (simp add: verify_then_home_env_def verify_then_home_def any_in_def
          logged_in_keywords_def)
  have d: "\<not> any_in logged_in_keywords (ve_url verify_then_home_env 0)"
    by (simp add: verify_then_home_env_def verify_then_home_def any_in_def
          logged_in_keywords_def)
  have e: "any_in fail_keywords (ve_url verify_then_home_env 0)"
    by (simp add: verify_then_home_env_def verify_then_home_def any_in_def fail_keywords_def)
  from d have f: "\<forall>i<1. \<not> any_in logged_in_keywords (ve_url verify_then_home_env i)"
    by simp
  from enter_verification_code_polling [OF a b] c f
  have "enter_verification_code verify_then_home_env = (True, Suc 1)"
    by (metis One_nat_def Suc_1 one_less_numeral_iff semiring_norm(76))
  with a b c d e show ?thesis by blast
qed


section \<open>Properties of the cookie extraction\<close>















section \<open>Properties of the node selection\<close>

lemma latency_tested_append:
  "latency_tested (xs @ ys) = latency_tested xs @ latency_tested ys"
  by (induction xs rule: latency_tested.induct) auto







section \<open>Properties of the pipelines\<close>

lemma fst_emit: "fst (emit evs p) = evs @ fst p"
  by (cases p) simp

lemma snd_emit: "snd (emit evs p) = snd p"
  by (cases p) simp

lemma updates_of_append: "updates_of (xs @ ys) = updates_of xs @ updates_of ys"
  by (induction xs rule: updates_of.induct) auto

lemma dict_get_update_other:
  "k \<noteq> k' \<Longrightarrow> dict_get (AList.update k v d) k' = dict_get d k'"
  by (simp add: dict_get_def dict_get_default_def update_conv')

lemma dict_get_update_same: "dict_get (AList.update k v d) k = v"
  by (simp add: dict_get_def dict_get_default_def update_conv')

subsection \<open>What a registration returns\<close>

lemma stop_and_continue_result:
  "snd (stop_and_continue e) \<noteq> Returned cookie_data"
  "updates_of (fst (stop_and_continue e)) = []"
  by (auto simp: stop_and_continue_def split: outcome.splits)

lemma register_try_updates: "updates_of (fst (register_try e)) = []"
  unfolding register_try_def
  by (auto simp: fst_emit updates_of_append stop_and_continue_result
        split: outcome.splits option.splits)

lemma register_try_returned:
  "snd (register_try e) = Returned cookie_data \<Longrightarrow> truthy (dict_get cookie_data ''secure_c_ses'')"
  unfolding register_try_def
  by (auto simp: snd_emit stop_and_continue_result dict_get_update_other
        split: outcome.splits option.splits if_splits)

lemma register_attempt_updates: "updates_of (fst (register_attempt e)) = []"
  unfolding register_attempt_def
  using register_try_updates [of e]
  by (cases "register_try e")
     (auto simp: fst_emit updates_of_append split: try_result.splits outcome.splits)

lemma register_attempt_returned:
  "snd (register_attempt e) = ReturnBundle cookie_data \<Longrightarrow>
   truthy (dict_get cookie_data ''secure_c_ses'')"
  unfolding register_attempt_def
  using register_try_returned [of e cookie_data]
  by (cases "register_try e")
     (auto simp: snd_emit split: try_result.splits outcome.splits if_splits)

lemma register_attempts_updates:
  "updates_of (fst (register_attempts env i n)) = []"
proof (induction n arbitrary: i)
  case 0
  then show ?case by simp
next
  case (Suc n)
  show ?case
    using register_attempt_updates [of "env i"] Suc [of "Suc i"]
    by (cases "register_attempt (env i)")
       (auto simp: fst_emit updates_of_append split: attempt_result.splits)
qed

lemma register_attempts_returned:
  "snd (register_attempts env i n) = Inr (Some cookie_data) \<Longrightarrow>
   truthy (dict_get cookie_data ''secure_c_ses'')"
proof (induction n arbitrary: i)
  case 0
  then show ?case by simp
next
  case (Suc n)
  show ?case
    using register_attempt_returned [of "env i" cookie_data] Suc.IH [of "Suc i"] Suc.prems
    by (cases "register_attempt (env i)")
       (auto simp: snd_emit split: attempt_result.splits)
qed

lemma register_new_account_updates: "updates_of (fst (register_new_account env)) = []"
  by (simp add: register_new_account_def fst_emit register_attempts_updates)

lemma register_new_account_returned:
  "snd (register_new_account env) = Inr (Some cookie_data) \<Longrightarrow>
   truthy (dict_get cookie_data ''secure_c_ses'')"
  by (auto simp: register_new_account_def snd_emit dest: register_attempts_returned
        split: if_splits)

lemma register_single_account_eq: "register_single_account env = register_new_account env"
  by (simp add: register_single_account_def register_new_account_def)

subsection \<open>What the callers pass to the artifact store\<close>

lemma bundles_ok_append: "bundles_ok (xs @ ys) = (bundles_ok xs \<and> bundles_ok ys)"
  by (auto simp: bundles_ok_def updates_of_append)

lemma bundles_ok_no_updates: "updates_of evs = [] \<Longrightarrow> bundles_ok evs"
  by (simp add: bundles_ok_def)

lemma bundles_ok_Nil: "bundles_ok []"
  by (simp add: bundles_ok_def)

lemma bundles_ok_Cons:
  "bundles_ok (ev # evs) =
     ((case ev of UpdateAccountsJson email cd \<Rightarrow> truthy (dict_get cd ''secure_c_ses'')
       | _ \<Rightarrow> True) \<and> bundles_ok evs)"
  by (cases ev) (auto simp: bundles_ok_def)

lemmas bundles_ok_simps = bundles_ok_Nil bundles_ok_Cons

lemma cooldown_ok: "bundles_ok (cooldown i num)"
  by (simp add: cooldown_def bundles_ok_simps)

lemma save_registration_ok:
  "(\<And>cd. result = Some cd \<Longrightarrow> truthy (dict_get cd ''secure_c_ses'')) \<Longrightarrow>
   bundles_ok (fst (save_registration env result))"
  unfolding save_registration_def
  by (auto simp: fst_emit bundles_ok_simps split: option.splits outcome.splits)

lemma main_register_loop_ok:
  "bundles_ok (fst (main_register_loop envs num i n counts))"
proof (induction n arbitrary: i counts)
  case 0
  then show ?case by (simp add: bundles_ok_simps)
next
  case (Suc n)
  obtain evs r where reg: "register_new_account (envs i) = (evs, r)"
    by (cases "register_new_account (envs i)")
  have evs: "bundles_ok evs"
    using register_new_account_updates [of "envs i"] reg
    by (simp add: bundles_ok_no_updates)
  show ?case
  proof (cases r)
    case (Inl err)
    with reg evs show ?thesis by simp
  next
    case (Inr result)
    obtain evs' s where sv: "save_registration (envs i) result = (evs', s)"
      by (cases "save_registration (envs i) result")
    have "bundles_ok (fst (save_registration (envs i) result))"
      using register_new_account_returned [of "envs i"] reg Inr
      by (intro save_registration_ok) simp
    with sv have evs': "bundles_ok evs'" by simp
    show ?thesis
      using reg Inr sv evs evs' Suc.IH cooldown_ok
      by (cases s) (simp_all add: fst_emit bundles_ok_append)
  qed
qed

lemma run_register_loop_ok:
  "bundles_ok (fst (run_register_loop envs num i n acc))"
proof (induction n arbitrary: i acc)
  case 0
  then show ?case by (simp add: bundles_ok_simps)
next
  case (Suc n)
  obtain evs r where reg: "register_single_account (envs i) = (evs, r)"
    by (cases "register_single_account (envs i)")
  have evs: "bundles_ok evs"
    using register_new_account_updates [of "envs i"] reg
    by (simp add: bundles_ok_no_updates register_single_account_eq)
  show ?case
  proof (cases r)
    case (Inl err)
    with reg evs show ?thesis by simp
  next
    case (Inr result)
    obtain evs' s where sv: "save_registration (envs i) result = (evs', s)"
      by (cases "save_registration (envs i) result")
    have "bundles_ok (fst (save_registration (envs i) result))"
      using register_new_account_returned [of "envs i"] reg Inr
      by (intro save_registration_ok) (simp add: register_single_account_eq)
    with sv have evs': "bundles_ok evs'" by simp
    show ?thesis
      using reg Inr sv evs evs' Suc.IH cooldown_ok
      by (cases s) (simp_all add: fst_emit bundles_ok_append)
  qed
qed

lemma process_try_ok: "bundles_ok (fst (process_try email password e))"
  unfolding process_try_def bundles_ok_def
  by (auto simp: fst_emit updates_of_append dict_get_update_other
        split: outcome.splits option.splits)

lemma process_existing_account_ok:
  "bundles_ok (fst (process_existing_account account proxy_node env))"
proof -
  obtain evs' r where pt:
    "process_try (dict_get_default account ''email'' (PyStr []))
       (dict_get_default account ''password'' (PyStr [])) (ac_attempt env 0) = (evs', r)"
    by (cases "process_try (dict_get_default account ''email'' (PyStr []))
       (dict_get_default account ''password'' (PyStr [])) (ac_attempt env 0)")
  have ok: "bundles_ok evs'"
    using process_try_ok [of "dict_get_default account ''email'' (PyStr [])"
        "dict_get_default account ''password'' (PyStr [])" "ac_attempt env 0"] pt
    by simp
  show ?thesis
    unfolding process_existing_account_def Let_def
    using pt ok
    by (auto simp: fst_emit bundles_ok_append bundles_ok_simps
          split: option.splits outcome.splits)
qed

lemma main_refresh_loop_ok:
  "bundles_ok (fst (main_refresh_loop envs proxy_node existing i accounts counts))"
proof (induction accounts arbitrary: i counts)
  case Nil
  then show ?case by (simp add: bundles_ok_simps)
next
  case (Cons account rest)
  show ?case
    using Cons.IH process_existing_account_ok [of account proxy_node "envs i"]
    by (cases "process_existing_account account proxy_node (envs i)")
       (simp add: fst_emit bundles_ok_append)
qed

lemma refresh_try_updates: "updates_of (fst (refresh_try email password e)) = []"
  unfolding refresh_try_def
  by (auto simp: fst_emit updates_of_append split: outcome.splits option.splits)

lemma refresh_try_returned:
  "snd (refresh_try email password e) = Returned (Some cookie_data) \<Longrightarrow>
   truthy (dict_get cookie_data ''secure_c_ses'')"
  unfolding refresh_try_def
  by (auto simp: snd_emit dict_get_update_other
        split: outcome.splits option.splits if_splits)

lemma refresh_single_account_updates:
  "updates_of (fst (refresh_single_account email password env)) = []"
  unfolding refresh_single_account_def Let_def
  using refresh_try_updates [of email password "ac_attempt env 0"]
  by (cases "refresh_try email password (ac_attempt env 0)")
     (auto simp: fst_emit updates_of_append split: outcome.splits)

lemma refresh_single_account_returned:
  "snd (refresh_single_account email password env) = Inr (Some cookie_data) \<Longrightarrow>
   truthy (dict_get cookie_data ''secure_c_ses'')"
  unfolding refresh_single_account_def Let_def
  using refresh_try_returned [of email password "ac_attempt env 0" cookie_data]
  by (cases "refresh_try email password (ac_attempt env 0)")
     (auto simp: snd_emit split: outcome.splits if_splits try_result.splits)

lemma run_refresh_task_ok: "bundles_ok (fst (run_refresh_task email password env))"
proof -
  obtain evs r where run: "refresh_single_account email password env = (evs, r)"
    by (cases "refresh_single_account email password env")
  have evs: "bundles_ok evs"
    using refresh_single_account_updates [of email password env] run
    by (simp add: bundles_ok_no_updates)
  have "truthy (dict_get cd ''secure_c_ses'')" if "r = Inr (Some cd)" for cd
    using refresh_single_account_returned [of email password env cd] run that by simp
  with run evs show ?thesis
    unfolding run_refresh_task_def
    by (auto simp: fst_emit bundles_ok_append bundles_ok_simps
          split: sum.splits option.splits outcome.splits)
qed

subsection \<open>Runs in which every step succeeds\<close>

lemma register_try_success:
  assumes "reaches_extraction e code cookie_data"
    and "truthy (dict_get cookie_data ''secure_c_ses'')"
  shows "register_try e =
     ([BrowserStart, BrowserLogin (PyStr (ae_email e)) (PyStr (ae_password e)),
       MailWaitForCode, BrowserEnterCode code, BrowserWaitLoginComplete,
       BrowserExtractCookies, BrowserStop],
      Returned (with_identity (PyStr (ae_email e)) (PyStr (ae_password e)) cookie_data))"
  using assms by (simp add: register_try_def reaches_extraction_def with_identity_def)

lemma register_new_account_success:
  assumes "\<not> falsy_name (ac_node env)" and "ae_register_ok (ac_attempt env 0)"
    and "reaches_extraction (ac_attempt env 0) code cookie_data"
    and "truthy (dict_get cookie_data ''secure_c_ses'')"
  shows "register_new_account env =
     ([FindHealthyNode, NewMailClient, MailRegister, NewBrowser, BrowserStart,
       BrowserLogin (PyStr (ae_email (ac_attempt env 0))) (PyStr (ae_password (ac_attempt env 0))),
       MailWaitForCode, BrowserEnterCode code, BrowserWaitLoginComplete,
       BrowserExtractCookies, BrowserStop],
      Inr (Some (with_identity (PyStr (ae_email (ac_attempt env 0)))
                   (PyStr (ae_password (ac_attempt env 0))) cookie_data)))"
  using assms(1,2) register_try_success [OF assms(3,4)]
  by (simp add: register_new_account_def register_attempt_def max_retries_def
        numeral_3_eq_3)

lemma process_try_success:
  assumes "reaches_extraction e code cookie_data"
    and "truthy (dict_get cookie_data ''secure_c_ses'')"
    and "ae_update e = Returns ()"
  shows "process_try email password e =
     ([BrowserStart, MailClearInbox, BrowserLogin email password,
       MailWaitForCode, BrowserEnterCode code, BrowserWaitLoginComplete,
       BrowserExtractCookies,
       UpdateAccountsJson email (AList.update ''email'' email cookie_data)],
      Returned True)"
  using assms by (simp add: process_try_def reaches_extraction_def)

lemma process_existing_account_success:
  assumes "truthy (dict_get_default account ''email'' (PyStr []))"
    and "\<not> falsy_name (ac_node env)"
    and "reaches_extraction (ac_attempt env 0) code cookie_data"
    and "truthy (dict_get cookie_data ''secure_c_ses'')"
    and "ae_update (ac_attempt env 0) = Returns ()"
  shows "process_existing_account account None env =
     ([FindHealthyNode, NewMailClient,
       MailSetCredentials (dict_get_default account ''email'' (PyStr []))
         (dict_get_default account ''password'' (PyStr [])),
       NewBrowser, BrowserStart, MailClearInbox,
       BrowserLogin (dict_get_default account ''email'' (PyStr []))
         (dict_get_default account ''password'' (PyStr [])),
       MailWaitForCode, BrowserEnterCode code, BrowserWaitLoginComplete,
       BrowserExtractCookies,
       UpdateAccountsJson (dict_get_default account ''email'' (PyStr []))
         (AList.update ''email'' (dict_get_default account ''email'' (PyStr [])) cookie_data),
       BrowserStop],
      Inr True)"
proof -
  have "ae_stop (ac_attempt env 0) = Returns ()"
    using assms(3) by (simp add: reaches_extraction_def)
  then show ?thesis
    using assms(1,2) process_try_success [OF assms(3,4,5)]
    by (simp add: process_existing_account_def Let_def)
qed

lemma refresh_try_success:
  assumes "reaches_extraction e code cookie_data"
    and "truthy (dict_get cookie_data ''secure_c_ses'')"
  shows "refresh_try email password e =
     ([BrowserStart, BrowserLogin email password,
       MailWaitForCode, BrowserEnterCode code, BrowserWaitLoginComplete,
       BrowserExtractCookies],
      Returned (Some (with_identity email password cookie_data)))"
  using assms by (simp add: refresh_try_def reaches_extraction_def with_identity_def)

lemma refresh_single_account_success:
  assumes "\<not> falsy_name (ac_node env)" and "ae_login_existing_ok (ac_attempt env 0)"
    and "reaches_extraction (ac_attempt env 0) code cookie_data"
    and "truthy (dict_get cookie_data ''secure_c_ses'')"
  shows "refresh_single_account email password env =
     ([FindHealthyNode, NewMailClient, MailLoginExisting email password, NewBrowser,
       BrowserStart, BrowserLogin email password,
       MailWaitForCode, BrowserEnterCode code, BrowserWaitLoginComplete,
       BrowserExtractCookies, BrowserStop],
      Inr (Some (with_identity email password cookie_data)))"
proof -
  have "ae_stop (ac_attempt env 0) = Returns ()"
    using assms(3) by (simp add: reaches_extraction_def)
  then show ?thesis
    using assms(1,2) refresh_try_success [OF assms(3,4)]
    by (simp add: refresh_single_account_def Let_def)
qed

subsection \<open>An empty session cookie ends the attempt\<close>

lemma register_attempt_empty_cookie:
  assumes "ae_extract e = Returns cookie_data"
    and "\<not> truthy (dict_get cookie_data ''secure_c_ses'')"
  shows "snd (register_attempt e) \<noteq> ReturnBundle bdl"
proof -
  have "snd (register_try e) \<noteq> Returned bdl"
    using assms unfolding register_try_def
    by (auto simp: snd_emit stop_and_continue_result split: outcome.splits option.splits)
  then show ?thesis
    unfolding register_attempt_def
    by (cases "register_try e")
       (auto simp: snd_emit split: try_result.splits outcome.splits)
qed

lemma process_try_empty_cookie:
  assumes "ae_extract e = Returns cookie_data"
    and "\<not> truthy (dict_get cookie_data ''secure_c_ses'')"
  shows "snd (process_try email password e) \<noteq> Returned True"
    and "updates_of (fst (process_try email password e)) = []"
  using assms unfolding process_try_def
  by (auto simp: snd_emit fst_emit updates_of_append split: outcome.splits option.splits)

lemma refresh_try_empty_cookie:
  assumes "ae_extract e = Returns cookie_data"
    and "\<not> truthy (dict_get cookie_data ''secure_c_ses'')"
  shows "snd (refresh_try email password e) \<noteq> Returned (Some bdl)"
  using assms unfolding refresh_try_def
  by (auto simp: snd_emit split: outcome.splits option.splits)

text \<open>
  C1.  On each of the four paths (registration and refresh, from the command line and
  from the API) every bundle passed to \<open>update_accounts_json\<close> has a non-empty
  \<open>secure_c_ses\<close>, whatever the environment answers; a bundle that the registration or
  the API refresh returns has a non-empty \<open>secure_c_ses\<close>; an extraction that yields an
  empty \<open>secure_c_ses\<close> ends the attempt without a result and without a write.
  Conversely a non-empty \<open>secure_c_ses\<close> is enough: when the steps before the extraction
  succeed and the browser stops normally, the extracted bundle is returned (with the
  identity merged in) or written, whatever its other fields hold.
\<close>

theorem session_cookie_is_the_success_predicate:
  "bundles_ok (fst (main_register_mode envs num)) \<and>
   bundles_ok (fst (main_refresh_mode envs proxy_node existing accounts)) \<and>
   bundles_ok (fst (run_register_task envs num)) \<and>
   bundles_ok (fst (run_refresh_task email password env)) \<and>
   (\<forall>bdl. snd (register_new_account env) = Inr (Some bdl) \<or>
              snd (register_single_account env) = Inr (Some bdl) \<or>
              snd (refresh_single_account email password env) = Inr (Some bdl) \<longrightarrow>
              truthy (dict_get bdl ''secure_c_ses'')) \<and>
   (ae_extract e = Returns cookie_data \<and> \<not> truthy (dict_get cookie_data ''secure_c_ses'') \<longrightarrow>
      (\<forall>bdl. snd (register_attempt e) \<noteq> ReturnBundle bdl \<and>
                 snd (refresh_try email password e) \<noteq> Returned (Some bdl)) \<and>
      snd (process_try email password e) \<noteq> Returned True \<and>
      updates_of (fst (process_try email password e)) = []) \<and>
   (\<not> falsy_name (ac_node env) \<and> reaches_extraction (ac_attempt env 0) code cookie_data \<and>
    truthy (dict_get cookie_data ''secure_c_ses'') \<longrightarrow>
      (ae_register_ok (ac_attempt env 0) \<longrightarrow>
         snd (register_new_account env) =
           Inr (Some (with_identity (PyStr (ae_email (ac_attempt env 0)))
                        (PyStr (ae_password (ac_attempt env 0))) cookie_data)) \<and>
         snd (register_single_account env) = snd (register_new_account env)) \<and>
      (ae_login_existing_ok (ac_attempt env 0) \<longrightarrow>
         snd (refresh_single_account email password env) =
           Inr (Some (with_identity email password cookie_data))) \<and>
      (truthy (dict_get_default account ''email'' (PyStr [])) \<and>
       ae_update (ac_attempt env 0) = Returns () \<longrightarrow>
         snd (process_existing_account account None env) = Inr True \<and>
         updates_of (fst (process_existing_account account None env)) =
           [(dict_get_default account ''email'' (PyStr []),
             AList.update ''email'' (dict_get_default account ''email'' (PyStr []))
               cookie_data)]))"
proof -
  have a: "bundles_ok (fst (main_register_mode envs num))"
    by (simp add: main_register_mode_def main_register_loop_ok)
  have b: "bundles_ok (fst (main_refresh_mode envs proxy_node existing accounts))"
    by (simp add: main_refresh_mode_def main_refresh_loop_ok)
  have c: "bundles_ok (fst (run_register_task envs num))"
    using run_register_loop_ok [of envs num 0 num "([], 0, 0)"]
    by (cases "run_register_loop envs num 0 num ([], 0, 0)")
       (auto simp: run_register_task_def split: sum.splits)
  have d: "bundles_ok (fst (run_refresh_task email password env))"
    by (rule run_refresh_task_ok)
  have e: "truthy (dict_get bdl ''secure_c_ses'')"
    if "snd (register_new_account env) = Inr (Some bdl) \<or>
        snd (register_single_account env) = Inr (Some bdl) \<or>
        snd (refresh_single_account email password env) = Inr (Some bdl)" for bdl
    using that register_new_account_returned [of env bdl]
      refresh_single_account_returned [of email password env bdl]
    by (auto simp: register_single_account_eq)
  have f: "(\<forall>bdl. snd (register_attempt e) \<noteq> ReturnBundle bdl \<and>
                 snd (refresh_try email password e) \<noteq> Returned (Some bdl)) \<and>
      snd (process_try email password e) \<noteq> Returned True \<and>
      updates_of (fst (process_try email password e)) = []"
    if "ae_extract e = Returns cookie_data" "\<not> truthy (dict_get cookie_data ''secure_c_ses'')"
    using register_attempt_empty_cookie [OF that] refresh_try_empty_cookie [OF that]
      process_try_empty_cookie [OF that]
    by blast
  have g: "snd (register_new_account env) =
           Inr (Some (with_identity (PyStr (ae_email (ac_attempt env 0)))
                        (PyStr (ae_password (ac_attempt env 0))) cookie_data)) \<and>
         snd (register_single_account env) = snd (register_new_account env)"
    if "\<not> falsy_name (ac_node env)" "reaches_extraction (ac_attempt env 0) code cookie_data"
      "truthy (dict_get cookie_data ''secure_c_ses'')" "ae_register_ok (ac_attempt env 0)"
    using register_new_account_success [OF that(1,4,2,3)]
    by (simp add: register_single_account_eq)
  have h: "snd (refresh_single_account email password env) =
           Inr (Some (with_identity email password cookie_data))"
    if "\<not> falsy_name (ac_node env)" "reaches_extraction (ac_attempt env 0) code cookie_data"
      "truthy (dict_get cookie_data ''secure_c_ses'')" "ae_login_existing_ok (ac_attempt env 0)"
    using refresh_single_account_success [OF that(1,4,2,3)] by simp
  have i: "snd (process_existing_account account None env) = Inr True \<and>
         updates_of (fst (process_existing_account account None env)) =
           [(dict_get_default account ''email'' (PyStr []),
             AList.update ''email'' (dict_get_default account ''email'' (PyStr []))
               cookie_data)]"
    if "\<not> falsy_name (ac_node env)" "reaches_extraction (ac_attempt env 0) code cookie_data"
      "truthy (dict_get cookie_data ''secure_c_ses'')"
      "truthy (dict_get_default account ''email'' (PyStr []))"
      "ae_update (ac_attempt env 0) = Returns ()"
    using process_existing_account_success [OF that(4,1,2,3,5)] by simp
  from a b c d e f g h i show ?thesis by blast
qed

theorem session_cookie_is_the_success_predicate_witness:
  "\<not> falsy_name (ac_node happy_env) \<and>
   reaches_extraction (ac_attempt happy_env 0) ''554211'' minimal_bundle \<and>
   truthy (dict_get minimal_bundle ''secure_c_ses'') \<and>
   snd (register_new_account happy_env) =
     Inr (Some (with_identity (PyStr ''t1234abcdefghij@duck.test'')
                  (PyStr ''Pwdabcdefghij1234'') minimal_bundle)) \<and>
   snd (refresh_single_account (PyStr ''old@duck.test'') (PyStr ''Pwdold'') happy_env) =
     Inr (Some (with_identity (PyStr ''old@duck.test'') (PyStr ''Pwdold'') minimal_bundle)) \<and>
   snd (process_existing_account example_account None happy_env) = Inr True \<and>
   updates_of (fst (process_existing_account example_account None happy_env)) =
     [(PyStr ''old@duck.test'', AList.update ''email'' (PyStr ''old@duck.test'') minimal_bundle)] \<and>
   bundles_ok (fst (process_existing_account example_account None happy_env))"
proof -
  have a: "\<not> falsy_name (ac_node happy_env)"
    by (simp add: happy_env_def falsy_name_def ustr_def)
  have b: "reaches_extraction (ac_attempt happy_env 0) ''554211'' minimal_bundle"
    by (simp add: happy_env_def happy_attempt_def reaches_extraction_def)
  have c: "truthy (dict_get minimal_bundle ''secure_c_ses'')"
    by (simp add: minimal_bundle_def dict_get_def dict_get_default_def)
  have d: "ae_register_ok (ac_attempt happy_env 0)"
    "ae_login_existing_ok (ac_attempt happy_env 0)"
    "ae_update (ac_attempt happy_env 0) = Returns ()"
    "ae_email (ac_attempt happy_env 0) = ''t1234abcdefghij@duck.test''"
    "ae_password (ac_attempt happy_env 0) = ''Pwdabcdefghij1234''"
    by (simp_all add: happy_env_def happy_attempt_def)
  have e: "dict_get_default example_account ''email'' (PyStr []) = PyStr ''old@duck.test''"
    by (simp add: example_account_def dict_get_default_def)
  have f: "bundles_ok [(UpdateAccountsJson (PyStr ''old@duck.test'')
      (AList.update ''email'' (PyStr ''old@duck.test'') minimal_bundle))]"
    by (simp add: bundles_ok_def minimal_bundle_def dict_get_def dict_get_default_def)
  from session_cookie_is_the_success_predicate
    [of "\<lambda>i. happy_env" 1 None "[]" "[example_account]" "PyStr ''old@duck.test''"
      "PyStr ''Pwdold''" happy_env happy_attempt minimal_bundle "''554211''" example_account]
    a b c d e
  show ?thesis
    by (simp add: main_refresh_mode_def fst_emit
          split: prod.splits)
qed


subsection \<open>The retry budget of the registration\<close>





subsection \<open>The refresh makes a single attempt\<close>

lemma process_try_counts:
  "count_list (fst (process_try email password e)) BrowserStart = 1"
  "count_list (fst (process_try email password e)) BrowserStop = 0"
  "count_list (fst (process_try email password e)) NewBrowser = 0"
  "count_list (fst (process_try email password e)) NewMailClient = 0"
  "count_list (fst (process_try email password e)) MailRegister = 0"
  unfolding process_try_def
  by (auto simp: fst_emit split: outcome.splits option.splits)

lemma refresh_try_counts:
  "count_list (fst (refresh_try email password e)) BrowserStart = 1"
  "count_list (fst (refresh_try email password e)) BrowserStop = 0"
  "count_list (fst (refresh_try email password e)) NewBrowser = 0"
  "count_list (fst (refresh_try email password e)) NewMailClient = 0"
  "count_list (fst (refresh_try email password e)) MailRegister = 0"
  "count_list (fst (refresh_try email password e)) MailClearInbox = 0"
  unfolding refresh_try_def
  by (auto simp: fst_emit split: outcome.splits option.splits)

lemma process_try_true:
  "snd (process_try email password e) = Returned True \<Longrightarrow>
   \<exists>code cookie_data.
     ae_start e = Returns () \<and> ae_login e = Returns True \<and> ae_code e = Some code \<and>
     code \<noteq> [] \<and> ae_enter e = Returns True \<and> ae_complete e = Returns True \<and>
     ae_extract e = Returns cookie_data \<and> truthy (dict_get cookie_data ''secure_c_ses'')"
  unfolding process_try_def
  by (auto simp: snd_emit split: outcome.splits option.splits if_splits)

lemma refresh_try_some:
  "snd (refresh_try email password e) = Returned (Some bdl) \<Longrightarrow>
   \<exists>code cookie_data.
     ae_start e = Returns () \<and> ae_login e = Returns True \<and> ae_code e = Some code \<and>
     code \<noteq> [] \<and> ae_enter e = Returns True \<and> ae_complete e = Returns True \<and>
     ae_extract e = Returns cookie_data \<and> truthy (dict_get cookie_data ''secure_c_ses'')"
  unfolding refresh_try_def
  by (auto simp: snd_emit split: outcome.splits option.splits if_splits)

lemma process_existing_account_counts:
  "count_list (fst (process_existing_account account proxy_node env)) BrowserStart \<le> 1 \<and>
   count_list (fst (process_existing_account account proxy_node env)) NewMailClient \<le> 1 \<and>
   count_list (fst (process_existing_account account proxy_node env)) MailRegister = 0 \<and>
   count_list (fst (process_existing_account account proxy_node env)) BrowserStop =
     count_list (fst (process_existing_account account proxy_node env)) NewBrowser"
proof -
  obtain evs r where pt:
    "process_try (dict_get_default account ''email'' (PyStr []))
       (dict_get_default account ''password'' (PyStr [])) (ac_attempt env 0) = (evs, r)"
    by (cases "process_try (dict_get_default account ''email'' (PyStr []))
       (dict_get_default account ''password'' (PyStr [])) (ac_attempt env 0)")
  have c: "count_list evs BrowserStart = 1" "count_list evs BrowserStop = 0"
    "count_list evs NewBrowser = 0" "count_list evs NewMailClient = 0"
    "count_list evs MailRegister = 0"
    using process_try_counts [of "dict_get_default account ''email'' (PyStr [])"
        "dict_get_default account ''password'' (PyStr [])" "ac_attempt env 0"] pt
    by simp_all
  show ?thesis
    unfolding process_existing_account_def Let_def
    using pt c
    by (auto simp: fst_emit split: option.splits outcome.splits)
qed

lemma refresh_single_account_counts:
  "count_list (fst (refresh_single_account email password env)) BrowserStart \<le> 1 \<and>
   count_list (fst (refresh_single_account email password env)) NewMailClient \<le> 1 \<and>
   count_list (fst (refresh_single_account email password env)) MailRegister = 0 \<and>
   count_list (fst (refresh_single_account email password env)) MailClearInbox = 0 \<and>
   count_list (fst (refresh_single_account email password env)) BrowserStop =
     count_list (fst (refresh_single_account email password env)) NewBrowser"
proof -
  obtain evs r where rt: "refresh_try email password (ac_attempt env 0) = (evs, r)"
    by (cases "refresh_try email password (ac_attempt env 0)")
  have c: "count_list evs BrowserStart = 1" "count_list evs BrowserStop = 0"
    "count_list evs NewBrowser = 0" "count_list evs NewMailClient = 0"
    "count_list evs MailRegister = 0" "count_list evs MailClearInbox = 0"
    using refresh_try_counts [of email password "ac_attempt env 0"] rt by simp_all
  show ?thesis
    unfolding refresh_single_account_def Let_def
    using rt c
    by (auto simp: fst_emit split: option.splits outcome.splits)
qed

lemma process_existing_account_true:
  assumes "snd (process_existing_account account proxy_node env) = Inr True"
  shows "\<exists>code cookie_data. reaches_extraction (ac_attempt env 0) code cookie_data \<and>
           truthy (dict_get cookie_data ''secure_c_ses'')"
proof -
  obtain evs r where pt:
    "process_try (dict_get_default account ''email'' (PyStr []))
       (dict_get_default account ''password'' (PyStr [])) (ac_attempt env 0) = (evs, r)"
    by (cases "process_try (dict_get_default account ''email'' (PyStr []))
       (dict_get_default account ''password'' (PyStr [])) (ac_attempt env 0)")
  from assms pt have "r = Returned True \<and> ae_stop (ac_attempt env 0) = Returns ()"
    unfolding process_existing_account_def Let_def
    by (auto simp: snd_emit split: option.splits outcome.splits if_splits try_result.splits)
  with pt process_try_true [of "dict_get_default account ''email'' (PyStr [])"
        "dict_get_default account ''password'' (PyStr [])" "ac_attempt env 0"]
  show ?thesis
    by (auto simp: reaches_extraction_def)
qed

lemma refresh_single_account_some:
  assumes "snd (refresh_single_account email password env) = Inr (Some bdl)"
  shows "\<exists>code cookie_data. reaches_extraction (ac_attempt env 0) code cookie_data \<and>
           truthy (dict_get cookie_data ''secure_c_ses'')"
proof -
  obtain evs r where rt: "refresh_try email password (ac_attempt env 0) = (evs, r)"
    by (cases "refresh_try email password (ac_attempt env 0)")
  from assms rt have "r = Returned (Some bdl) \<and> ae_stop (ac_attempt env 0) = Returns ()"
    unfolding refresh_single_account_def Let_def
    by (auto simp: snd_emit split: option.splits outcome.splits if_splits try_result.splits)
  with rt refresh_try_some [of email password "ac_attempt env 0" bdl]
  show ?thesis
    by (auto simp: reaches_extraction_def)
qed

text \<open>
  C6, as the specification states it, fails: with a healthy node and a login step that
  returns false, the refresh of main.py and the refresh of api_server.py each start
  one browser session, stop it and return false or none; no second attempt is made.
  The registration in the same environment starts three.
\<close>

theorem refresh_does_not_retry_counterexample:
  "process_existing_account example_account None login_false_env =
     ([FindHealthyNode, NewMailClient,
       MailSetCredentials (PyStr ''old@duck.test'') (PyStr ''Pwdold''), NewBrowser,
       BrowserStart, MailClearInbox,
       BrowserLogin (PyStr ''old@duck.test'') (PyStr ''Pwdold''), BrowserStop],
      Inr False) \<and>
   refresh_single_account (PyStr ''old@duck.test'') (PyStr ''Pwdold'') login_false_env =
     ([FindHealthyNode, NewMailClient,
       MailLoginExisting (PyStr ''old@duck.test'') (PyStr ''Pwdold''), NewBrowser,
       BrowserStart, BrowserLogin (PyStr ''old@duck.test'') (PyStr ''Pwdold''), BrowserStop],
      Inr None) \<and>
   count_list (fst (process_existing_account example_account None login_false_env))
     BrowserStart \<noteq> max_retries \<and>
   count_list (fst (refresh_single_account (PyStr ''old@duck.test'') (PyStr ''Pwdold'')
     login_false_env)) BrowserStart \<noteq> max_retries"
  by (simp add: process_existing_account_def process_try_def refresh_single_account_def
        refresh_try_def example_account_def login_false_env_def login_false_attempt_def
        happy_attempt_def dict_get_default_def falsy_name_def ustr_def max_retries_def Let_def)

text \<open>
  C6, amended.  The refresh is a single attempt, in main.py and in api_server.py: in
  every environment it creates at most one mail client and starts at most one browser
  session, stops every browser it created exactly once, and only reads the answers of
  that one attempt.  It succeeds only if every step of the attempt succeeds (login,
  code, verification, completion, a non-empty primary cookie); when a step fails the
  result is false or none and no new attempt is started.
\<close>

theorem refresh_makes_one_attempt:
  "count_list (fst (process_existing_account account proxy_node env)) BrowserStart \<le> 1 \<and>
   count_list (fst (process_existing_account account proxy_node env)) NewMailClient \<le> 1 \<and>
   count_list (fst (process_existing_account account proxy_node env)) BrowserStop =
     count_list (fst (process_existing_account account proxy_node env)) NewBrowser \<and>
   count_list (fst (refresh_single_account email password env)) BrowserStart \<le> 1 \<and>
   count_list (fst (refresh_single_account email password env)) NewMailClient \<le> 1 \<and>
   count_list (fst (refresh_single_account email password env)) BrowserStop =
     count_list (fst (refresh_single_account email password env)) NewBrowser \<and>
   (snd (process_existing_account account proxy_node env) = Inr True \<longrightarrow>
      (\<exists>code cookie_data. reaches_extraction (ac_attempt env 0) code cookie_data \<and>
          truthy (dict_get cookie_data ''secure_c_ses''))) \<and>
   (\<forall>bdl. snd (refresh_single_account email password env) = Inr (Some bdl) \<longrightarrow>
      (\<exists>code cookie_data. reaches_extraction (ac_attempt env 0) code cookie_data \<and>
          truthy (dict_get cookie_data ''secure_c_ses'')))"
  using process_existing_account_counts [of account proxy_node env]
    refresh_single_account_counts [of email password env]
    process_existing_account_true [of account proxy_node env]
    refresh_single_account_some [of email password env]
  by blast

theorem refresh_makes_one_attempt_witness:
  "snd (process_existing_account example_account None happy_env) = Inr True \<and>
   snd (refresh_single_account (PyStr ''old@duck.test'') (PyStr ''Pwdold'') happy_env) =
     Inr (Some (with_identity (PyStr ''old@duck.test'') (PyStr ''Pwdold'') minimal_bundle)) \<and>
   (\<exists>code cookie_data. reaches_extraction (ac_attempt happy_env 0) code cookie_data \<and>
      truthy (dict_get cookie_data ''secure_c_ses'')) \<and>
   count_list (fst (process_existing_account example_account None happy_env)) BrowserStart \<le> 1"
proof -
  have a: "snd (process_existing_account example_account None happy_env) = Inr True"
    by (simp add: process_existing_account_def process_try_def example_account_def
          happy_env_def happy_attempt_def minimal_bundle_def dict_get_default_def
          dict_get_def falsy_name_def ustr_def Let_def)
  have b: "snd (refresh_single_account (PyStr ''old@duck.test'') (PyStr ''Pwdold'') happy_env) =
     Inr (Some (with_identity (PyStr ''old@duck.test'') (PyStr ''Pwdold'') minimal_bundle))"
    by (simp add: refresh_single_account_def refresh_try_def with_identity_def
          happy_env_def happy_attempt_def minimal_bundle_def dict_get_default_def
          dict_get_def falsy_name_def ustr_def Let_def)
  from refresh_makes_one_attempt [of example_account None happy_env
      "PyStr ''old@duck.test''" "PyStr ''Pwdold''"] a b
  show ?thesis by blast
qed

subsection \<open>The mailbox calls of the refresh\<close>

text \<open>
  C7 holds for the refresh of main.py and fails for the refresh of api_server.py.
  Neither ever registers a mailbox, and each binds one mail client to the supplied
  identity.  \<open>process_existing_account\<close> clears the inbox after the browser start and
  before the login step; \<open>refresh_single_account\<close> never clears it, in any environment,
  so that its login step runs on an inbox that may still hold an old code.
\<close>

theorem api_refresh_never_clears_inbox:
  "MailClearInbox \<notin> set (fst (refresh_single_account email password env)) \<and>
   MailRegister \<notin> set (fst (refresh_single_account email password env)) \<and>
   MailRegister \<notin> set (fst (process_existing_account account proxy_node env)) \<and>
   refresh_single_account (PyStr ''old@duck.test'') (PyStr ''Pwdold'') happy_env =
     ([FindHealthyNode, NewMailClient,
       MailLoginExisting (PyStr ''old@duck.test'') (PyStr ''Pwdold''), NewBrowser,
       BrowserStart, BrowserLogin (PyStr ''old@duck.test'') (PyStr ''Pwdold''),
       MailWaitForCode, BrowserEnterCode ''554211'', BrowserWaitLoginComplete,
       BrowserExtractCookies, BrowserStop],
      Inr (Some (with_identity (PyStr ''old@duck.test'') (PyStr ''Pwdold'') minimal_bundle))) \<and>
   fst (process_existing_account example_account None happy_env) =
     [FindHealthyNode, NewMailClient,
      MailSetCredentials (PyStr ''old@duck.test'') (PyStr ''Pwdold''), NewBrowser,
      BrowserStart, MailClearInbox,
      BrowserLogin (PyStr ''old@duck.test'') (PyStr ''Pwdold''),
      MailWaitForCode, BrowserEnterCode ''554211'', BrowserWaitLoginComplete,
      BrowserExtractCookies,
      UpdateAccountsJson (PyStr ''old@duck.test'')
        (AList.update ''email'' (PyStr ''old@duck.test'') minimal_bundle),
      BrowserStop]"
proof -
  have a: "MailClearInbox \<notin> set (fst (refresh_single_account email password env))"
    using refresh_single_account_counts [of email password env]
    by (simp add: count_list_0_iff)
  have b: "MailRegister \<notin> set (fst (refresh_single_account email password env))"
    using refresh_single_account_counts [of email password env]
    by (simp add: count_list_0_iff)
  have c: "MailRegister \<notin> set (fst (process_existing_account account proxy_node env))"
    using process_existing_account_counts [of account proxy_node env]
    by (simp add: count_list_0_iff)
  have d: "refresh_single_account (PyStr ''old@duck.test'') (PyStr ''Pwdold'') happy_env =
     ([FindHealthyNode, NewMailClient,
       MailLoginExisting (PyStr ''old@duck.test'') (PyStr ''Pwdold''), NewBrowser,
       BrowserStart, BrowserLogin (PyStr ''old@duck.test'') (PyStr ''Pwdold''),
       MailWaitForCode, BrowserEnterCode ''554211'', BrowserWaitLoginComplete,
       BrowserExtractCookies, BrowserStop],
      Inr (Some (with_identity (PyStr ''old@duck.test'') (PyStr ''Pwdold'') minimal_bundle)))"
    by (simp add: refresh_single_account_def refresh_try_def with_identity_def
          happy_env_def happy_attempt_def minimal_bundle_def dict_get_default_def
          dict_get_def falsy_name_def ustr_def Let_def)
  have e: "fst (process_existing_account example_account None happy_env) =
     [FindHealthyNode, NewMailClient,
      MailSetCredentials (PyStr ''old@duck.test'') (PyStr ''Pwdold''), NewBrowser,
      BrowserStart, MailClearInbox,
      BrowserLogin (PyStr ''old@duck.test'') (PyStr ''Pwdold''),
      MailWaitForCode, BrowserEnterCode ''554211'', BrowserWaitLoginComplete,
      BrowserExtractCookies,
      UpdateAccountsJson (PyStr ''old@duck.test'')
        (AList.update ''email'' (PyStr ''old@duck.test'') minimal_bundle),
      BrowserStop]"
    by (simp add: process_existing_account_def process_try_def example_account_def
          happy_env_def happy_attempt_def minimal_bundle_def dict_get_default_def
          dict_get_def falsy_name_def ustr_def Let_def)
  from a b c d e show ?thesis by blast
qed


end
